theory Spec2Isabelle
  imports Complex_Main "HOL-Library.AList"
begin

section \<open>Values, documents, errors\<close>

text \<open>
  The values that travel through \<^verbatim>\<open>main.py\<close>: what a JSON body holds after the
  framework has parsed it, what \<^verbatim>\<open>model_dump()\<close> puts into a dict, and what the store
  hands back. \<open>JNum r\<close> is a value accepted for a \<^verbatim>\<open>float\<close> field, read as the number
  \<open>r\<close>; \<open>JOid h\<close> is the store's native identifier, kept by the hexadecimal text \<open>h\<close>
  that \<^verbatim>\<open>str()\<close> renders for it.
\<close>

datatype json = JNull | JBool bool | JNum real | JStr string | JOid string

text \<open>
  A Python dict keeps its keys in insertion order, so a document is an association list;
  \<^verbatim>\<open>d[k] = v\<close> overwrites in place or appends. A request body is only ever looked up by
  field name, so it is a map.
\<close>

type_synonym doc = "(string \<times> json) list"

type_synonym body = "string \<rightharpoonup> json"

text \<open>An exception \<^verbatim>\<open>e\<close> raised inside a handler, kept by its text \<^verbatim>\<open>str(e)\<close>.\<close>

datatype exn = Exception string

text \<open>The constraint a field violates, under the names the validation library reports.\<close>

datatype error_type = missing | string_type | float_type | greater_than_equal | less_than_equal

type_synonym errors = "(string \<times> error_type) list"

text \<open>
  The two ways a request fails: the framework rejects the input before the handler runs
  (a client input error, status 422), or the handler raises
  \<^verbatim>\<open>HTTPException(status_code, detail)\<close>.
\<close>

datatype http_error = RequestValidationError errors | HTTPException int string

text \<open>
  The two success bodies, \<^verbatim>\<open>{"ok": True, "id": inserted_id}\<close> and
  \<^verbatim>\<open>{"ok": True, "items": docs}\<close>.
\<close>

datatype reply = OkId string | OkItems "doc list"

section \<open>Python primitives used by the handlers\<close>

text \<open>\<^verbatim>\<open>d.get(k)\<close>: the value under \<open>k\<close>, or \<^verbatim>\<open>None\<close>.\<close>

definition py_get :: "doc \<Rightarrow> string \<Rightarrow> json" where
  "py_get d k = (case map_of d k of None \<Rightarrow> JNull | Some v \<Rightarrow> v)"

text \<open>\<^verbatim>\<open>d[k] = v\<close>.\<close>

definition py_setitem :: "doc \<Rightarrow> string \<Rightarrow> json \<Rightarrow> doc" where
  "py_setitem d k v = AList.update k v d"

text \<open>Truth value testing: \<^verbatim>\<open>None\<close>, \<^verbatim>\<open>False\<close>, zero and the empty string are false.\<close>

fun truthy :: "json \<Rightarrow> bool" where
  "truthy JNull = False"
| "truthy (JBool b) = b"
| "truthy (JNum r) = (r \<noteq> 0)"
| "truthy (JStr s) = (s \<noteq> [])"
| "truthy (JOid h) = True"

text \<open>\<^verbatim>\<open>a or b\<close>.\<close>

definition py_or :: "json \<Rightarrow> json \<Rightarrow> json" where
  "py_or a b = (if truthy a then a else b)"

text \<open>
  \<^verbatim>\<open>str(v)\<close>. The text of a float is the one part left open: it is the parameter
  \<open>str_float\<close>.
\<close>

fun py_str :: "(real \<Rightarrow> string) \<Rightarrow> json \<Rightarrow> string" where
  "py_str str_float JNull = ''None''"
| "py_str str_float (JBool b) = (if b then ''True'' else ''False'')"
| "py_str str_float (JNum r) = str_float r"
| "py_str str_float (JStr s) = s"
| "py_str str_float (JOid h) = h"

text \<open>\<^verbatim>\<open>str(e)\<close> for an exception.\<close>

fun str_exn :: "exn \<Rightarrow> string" where
  "str_exn (Exception m) = m"

section \<open>Request models of \<^verbatim>\<open>main.py\<close>\<close>

text \<open>
  One validator per annotation used in \<^verbatim>\<open>main.py\<close>. The second argument is the declared
  default, \<open>None\<close> for a required field. \<^verbatim>\<open>Optional[str] = None\<close> accepts an absent field
  and \<^verbatim>\<open>null\<close> alike.
\<close>

fun validate_float :: "string \<Rightarrow> real option \<Rightarrow> json option \<Rightarrow> errors + real" where
  "validate_float name None None = Inl [(name, missing)]"
| "validate_float name (Some d) None = Inr d"
| "validate_float name dflt (Some (JNum r)) = Inr r"
| "validate_float name dflt (Some v) = Inl [(name, float_type)]"

fun validate_str :: "string \<Rightarrow> string option \<Rightarrow> json option \<Rightarrow> errors + string" where
  "validate_str name None None = Inl [(name, missing)]"
| "validate_str name (Some d) None = Inr d"
| "validate_str name dflt (Some (JStr s)) = Inr s"
| "validate_str name dflt (Some v) = Inl [(name, string_type)]"

fun validate_optional_str :: "string \<Rightarrow> json option \<Rightarrow> errors + string option" where
  "validate_optional_str name None = Inr None"
| "validate_optional_str name (Some JNull) = Inr None"
| "validate_optional_str name (Some (JStr s)) = Inr (Some s)"
| "validate_optional_str name (Some v) = Inl [(name, string_type)]"

text \<open>Every field is checked and the errors of all fields are reported together.\<close>

definition ap :: "errors + ('a \<Rightarrow> 'b) \<Rightarrow> errors + 'a \<Rightarrow> errors + 'b" where
  "ap f x =
     (case f of
        Inr g \<Rightarrow> (case x of Inr v \<Rightarrow> Inr (g v) | Inl e \<Rightarrow> Inl e)
      | Inl e \<Rightarrow> (case x of Inr v \<Rightarrow> Inl e | Inl e' \<Rightarrow> Inl (e @ e')))"

text \<open>\<^verbatim>\<open>Optional[str]\<close> as a dict value.\<close>

fun dump_optional_str :: "string option \<Rightarrow> json" where
  "dump_optional_str None = JNull"
| "dump_optional_str (Some s) = JStr s"

record ExpenseIn =
  e_amount :: real
  e_currency :: string
  e_date :: "string option"
  e_merchant :: "string option"
  e_note :: "string option"
  e_category :: "string option"
  e_account :: "string option"
  e_type :: string

definition ExpenseIn_validate :: "body \<Rightarrow> errors + ExpenseIn" where
  "ExpenseIn_validate b =
     ap (ap (ap (ap (ap (ap (ap (ap
       (Inr (\<lambda>a c d m n cat acc t.
          \<lparr>e_amount = a, e_currency = c, e_date = d, e_merchant = m, e_note = n,
           e_category = cat, e_account = acc, e_type = t\<rparr>))
       (validate_float ''amount'' None (b ''amount'')))
       (validate_str ''currency'' (Some ''USD'') (b ''currency'')))
       (validate_optional_str ''date'' (b ''date'')))
       (validate_optional_str ''merchant'' (b ''merchant'')))
       (validate_optional_str ''note'' (b ''note'')))
       (validate_optional_str ''category'' (b ''category'')))
       (validate_optional_str ''account'' (b ''account'')))
       (validate_str ''type'' (Some ''debit'') (b ''type''))"

definition ExpenseIn_model_dump :: "ExpenseIn \<Rightarrow> doc" where
  "ExpenseIn_model_dump e =
     [(''amount'', JNum (e_amount e)),
      (''currency'', JStr (e_currency e)),
      (''date'', dump_optional_str (e_date e)),
      (''merchant'', dump_optional_str (e_merchant e)),
      (''note'', dump_optional_str (e_note e)),
      (''category'', dump_optional_str (e_category e)),
      (''account'', dump_optional_str (e_account e)),
      (''type'', JStr (e_type e))]"

record BudgetIn =
  b_category :: string
  b_amount :: real
  b_month :: "string option"

definition BudgetIn_validate :: "body \<Rightarrow> errors + BudgetIn" where
  "BudgetIn_validate b =
     ap (ap (ap
       (Inr (\<lambda>c a m. \<lparr>b_category = c, b_amount = a, b_month = m\<rparr>))
       (validate_str ''category'' None (b ''category'')))
       (validate_float ''amount'' None (b ''amount'')))
       (validate_optional_str ''month'' (b ''month''))"

definition BudgetIn_model_dump :: "BudgetIn \<Rightarrow> doc" where
  "BudgetIn_model_dump x =
     [(''category'', JStr (b_category x)),
      (''amount'', JNum (b_amount x)),
      (''month'', dump_optional_str (b_month x))]"

record GoalIn =
  g_name :: string
  g_target_amount :: real
  g_current_amount :: real
  g_deadline :: "string option"

definition GoalIn_validate :: "body \<Rightarrow> errors + GoalIn" where
  "GoalIn_validate b =
     ap (ap (ap (ap
       (Inr (\<lambda>n t c d.
          \<lparr>g_name = n, g_target_amount = t, g_current_amount = c, g_deadline = d\<rparr>))
       (validate_str ''name'' None (b ''name'')))
       (validate_float ''target_amount'' None (b ''target_amount'')))
       (validate_float ''current_amount'' (Some 0) (b ''current_amount'')))
       (validate_optional_str ''deadline'' (b ''deadline''))"

definition GoalIn_model_dump :: "GoalIn \<Rightarrow> doc" where
  "GoalIn_model_dump x =
     [(''name'', JStr (g_name x)),
      (''target_amount'', JNum (g_target_amount x)),
      (''current_amount'', JNum (g_current_amount x)),
      (''deadline'', dump_optional_str (g_deadline x))]"

text \<open>
  \<^verbatim>\<open>limit: int = Query(dflt, ge=lo, le=hi)\<close>: an absent parameter takes the default, a
  given one is checked against both bounds.
\<close>

definition Query_int :: "string \<Rightarrow> int \<Rightarrow> int \<Rightarrow> int \<Rightarrow> int option \<Rightarrow> errors + int" where
  "Query_int name dflt lo hi raw =
     (case raw of
        None \<Rightarrow> Inr dflt
      | Some v \<Rightarrow>
          if v < lo then Inl [(name, greater_than_equal)]
          else if hi < v then Inl [(name, less_than_equal)]
          else Inr v)"

section \<open>Handlers\<close>

text \<open>
  Module \<^verbatim>\<open>database\<close> is imported by \<^verbatim>\<open>main.py\<close> and is not part of the sources at hand,
  so \<^verbatim>\<open>create_document\<close> and \<^verbatim>\<open>get_documents\<close> are parameters of the handlers that call
  them: functions on a state \<open>'st\<close> of the outside world that either raise or return. The
  clock \<^verbatim>\<open>datetime.utcnow().isoformat()\<close> is read from the same state.
\<close>

type_synonym 'st create_document = "string \<Rightarrow> doc \<Rightarrow> 'st \<Rightarrow> (exn + string) \<times> 'st"

type_synonym 'st get_documents = "string \<Rightarrow> doc \<Rightarrow> int \<Rightarrow> 'st \<Rightarrow> (exn + doc list) \<times> 'st"

text \<open>The \<^verbatim>\<open>try\<close>/\<^verbatim>\<open>except Exception\<close> around a create: status 500 with \<^verbatim>\<open>str(e)\<close>.\<close>

definition created :: "(exn + string) \<times> 'st \<Rightarrow> (http_error + reply) \<times> 'st" where
  "created r =
     (case r of
        (Inr inserted_id, st') \<Rightarrow> (Inr (OkId inserted_id), st')
      | (Inl e, st') \<Rightarrow> (Inl (HTTPException 500 (str_exn e)), st'))"

definition add_expense ::
  "'st create_document \<Rightarrow> ('st \<Rightarrow> string) \<Rightarrow> ExpenseIn \<Rightarrow> 'st \<Rightarrow> (http_error + reply) \<times> 'st" where
  "add_expense create_document utcnow expense st =
     (let data = ExpenseIn_model_dump expense;
          data = py_setitem data ''date'' (py_or (py_get data ''date'') (JStr (utcnow st)))
      in created (create_document ''expense'' data st))"

definition add_budget ::
  "'st create_document \<Rightarrow> BudgetIn \<Rightarrow> 'st \<Rightarrow> (http_error + reply) \<times> 'st" where
  "add_budget create_document budget st =
     (let data = BudgetIn_model_dump budget
      in created (create_document ''budget'' data st))"

definition add_goal ::
  "'st create_document \<Rightarrow> GoalIn \<Rightarrow> 'st \<Rightarrow> (http_error + reply) \<times> 'st" where
  "add_goal create_document goal st =
     (let data = GoalIn_model_dump goal
      in created (create_document ''goal'' data st))"

text \<open>
  The tail shared by the three list handlers: the loop
  \<^verbatim>\<open>for d in docs: d["_id"] = str(d.get("_id"))\<close> and the \<^verbatim>\<open>except\<close> clause.
\<close>

definition stringify_id :: "(real \<Rightarrow> string) \<Rightarrow> doc \<Rightarrow> doc" where
  "stringify_id str_float d = py_setitem d ''_id'' (JStr (py_str str_float (py_get d ''_id'')))"

definition listed ::
  "(real \<Rightarrow> string) \<Rightarrow> (exn + doc list) \<times> 'st \<Rightarrow> (http_error + reply) \<times> 'st" where
  "listed str_float r =
     (case r of
        (Inr docs, st') \<Rightarrow> (Inr (OkItems (map (stringify_id str_float) docs)), st')
      | (Inl e, st') \<Rightarrow> (Inl (HTTPException 500 (str_exn e)), st'))"

definition list_expenses ::
  "'st get_documents \<Rightarrow> (real \<Rightarrow> string) \<Rightarrow> string option \<Rightarrow> int \<Rightarrow> 'st
     \<Rightarrow> (http_error + reply) \<times> 'st" where
  "list_expenses get_documents str_float category limit st =
     (let filter_query = [(''type'', JStr ''debit'')];
          filter_query =
            (case category of
               None \<Rightarrow> filter_query
             | Some c \<Rightarrow> if c \<noteq> [] then py_setitem filter_query ''category'' (JStr c)
                         else filter_query)
      in listed str_float (get_documents ''expense'' filter_query limit st))"

definition list_budgets ::
  "'st get_documents \<Rightarrow> (real \<Rightarrow> string) \<Rightarrow> string option \<Rightarrow> int \<Rightarrow> 'st
     \<Rightarrow> (http_error + reply) \<times> 'st" where
  "list_budgets get_documents str_float month limit st =
     (let filter_query = [];
          filter_query =
            (case month of
               None \<Rightarrow> filter_query
             | Some m \<Rightarrow> if m \<noteq> [] then py_setitem filter_query ''month'' (JStr m)
                         else filter_query)
      in listed str_float (get_documents ''budget'' filter_query limit st))"

definition list_goals ::
  "'st get_documents \<Rightarrow> (real \<Rightarrow> string) \<Rightarrow> int \<Rightarrow> 'st \<Rightarrow> (http_error + reply) \<times> 'st" where
  "list_goals get_documents str_float limit st =
     listed str_float (get_documents ''goal'' [] limit st)"

section \<open>Routes\<close>

text \<open>
  What the framework does with a request before and around the handler: the body is
  validated against the handler's parameter type, the query parameters against their
  \<^verbatim>\<open>Query\<close> declarations, and a failure ends the request without running the handler.
\<close>

definition post_api_expenses ::
  "'st create_document \<Rightarrow> ('st \<Rightarrow> string) \<Rightarrow> body \<Rightarrow> 'st \<Rightarrow> (http_error + reply) \<times> 'st" where
  "post_api_expenses create_document utcnow b st =
     (case ExpenseIn_validate b of
        Inl errs \<Rightarrow> (Inl (RequestValidationError errs), st)
      | Inr expense \<Rightarrow> add_expense create_document utcnow expense st)"

definition post_api_budgets ::
  "'st create_document \<Rightarrow> body \<Rightarrow> 'st \<Rightarrow> (http_error + reply) \<times> 'st" where
  "post_api_budgets create_document b st =
     (case BudgetIn_validate b of
        Inl errs \<Rightarrow> (Inl (RequestValidationError errs), st)
      | Inr budget \<Rightarrow> add_budget create_document budget st)"

definition post_api_goals ::
  "'st create_document \<Rightarrow> body \<Rightarrow> 'st \<Rightarrow> (http_error + reply) \<times> 'st" where
  "post_api_goals create_document b st =
     (case GoalIn_validate b of
        Inl errs \<Rightarrow> (Inl (RequestValidationError errs), st)
      | Inr goal \<Rightarrow> add_goal create_document goal st)"

definition get_api_expenses ::
  "'st get_documents \<Rightarrow> (real \<Rightarrow> string) \<Rightarrow> string option \<Rightarrow> int option \<Rightarrow> 'st
     \<Rightarrow> (http_error + reply) \<times> 'st" where
  "get_api_expenses get_documents str_float category raw_limit st =
     (case Query_int ''limit'' 50 1 500 raw_limit of
        Inl errs \<Rightarrow> (Inl (RequestValidationError errs), st)
      | Inr limit \<Rightarrow> list_expenses get_documents str_float category limit st)"

definition get_api_budgets ::
  "'st get_documents \<Rightarrow> (real \<Rightarrow> string) \<Rightarrow> string option \<Rightarrow> int option \<Rightarrow> 'st
     \<Rightarrow> (http_error + reply) \<times> 'st" where
  "get_api_budgets get_documents str_float month raw_limit st =
     (case Query_int ''limit'' 50 1 200 raw_limit of
        Inl errs \<Rightarrow> (Inl (RequestValidationError errs), st)
      | Inr limit \<Rightarrow> list_budgets get_documents str_float month limit st)"

definition get_api_goals ::
  "'st get_documents \<Rightarrow> (real \<Rightarrow> string) \<Rightarrow> int option \<Rightarrow> 'st \<Rightarrow> (http_error + reply) \<times> 'st" where
  "get_api_goals get_documents str_float raw_limit st =
     (case Query_int ''limit'' 50 1 200 raw_limit of
        Inl errs \<Rightarrow> (Inl (RequestValidationError errs), st)
      | Inr limit \<Rightarrow> list_goals get_documents str_float limit st)"

section \<open>A recording store\<close>

text \<open>
  A test double for the two store functions. Its state is the log of the calls made so
  far; each call appends itself and answers with a canned result. What a handler passes
  to the store, and whether it calls the store at all, is then read off the log.
\<close>

datatype call = Create string doc | Find string doc int

definition recording_create :: "exn + string \<Rightarrow> call list create_document" where
  "recording_create answer coll d calls = (answer, calls @ [Create coll d])"

definition recording_find :: "exn + doc list \<Rightarrow> call list get_documents" where
  "recording_find answer coll flt limit calls = (answer, calls @ [Find coll flt limit])"

definition fixed_clock :: "string \<Rightarrow> 'st \<Rightarrow> string" where
  "fixed_clock t st = t"

definition plain_float :: "real \<Rightarrow> string" where
  "plain_float r = ''float''"

section \<open>The store's find operation\<close>

text \<open>
  Modelled from the spec: \<^verbatim>\<open>get_documents\<close> of module \<^verbatim>\<open>database\<close>, which \<^verbatim>\<open>main.py\<close>
  imports and which is not among the sources. The spec's words: find returns the
  documents of the collection that match an exact-match filter (a mapping of field to
  value, logical AND across fields, the empty filter matching all), capped at the limit,
  in the store's retrieval order, here insertion order; it has no side effects, and it
  fails with a storage error if the store is unreachable.
\<close>

record store =
  reachable :: bool
  documents :: "(string \<times> doc) list"

definition matches :: "doc \<Rightarrow> doc \<Rightarrow> bool" where
  "matches flt d = list_all (\<lambda>(k, v). map_of d k = Some v) flt"

definition spec_get_documents :: "store get_documents" where
  "spec_get_documents coll flt limit s =
     (if reachable s
      then (Inr (take (nat limit)
                   (filter (matches flt) (map snd (filter (\<lambda>(c, d). c = coll) (documents s))))), s)
      else (Inl (Exception ''store unreachable''), s))"

section \<open>Dict and handler-tail lemmas\<close>

lemma py_get_setitem_same: "py_get (py_setitem d k v) k = v"
  by (simp add: py_get_def py_setitem_def update_conv')

lemma py_get_setitem_other: "k' \<noteq> k \<Longrightarrow> py_get (py_setitem d k v) k' = py_get d k'"
  by (simp add: py_get_def py_setitem_def update_conv')

lemma py_get_stringify_other: "k \<noteq> ''_id'' \<Longrightarrow> py_get (stringify_id sf d) k = py_get d k"
  by (simp add: stringify_id_def py_get_setitem_other)

lemma map_of_stringify_id:
  "map_of (stringify_id sf d) ''_id'' = Some (JStr (py_str sf (py_get d ''_id'')))"
  by (simp add: stringify_id_def py_setitem_def update_conv')

lemma snd_created: "snd (created (r, st)) = st"
  by (cases r) (simp_all add: created_def)

lemma snd_listed: "snd (listed sf (r, st)) = st"
  by (cases r) (simp_all add: listed_def)

lemma listed_items:
  "listed sf r = (Inr (OkItems items), st') \<Longrightarrow>
     \<exists>docs. fst r = Inr docs \<and> items = map (stringify_id sf) docs"
  by (cases r) (auto simp: listed_def split: sum.splits)

lemma map_of_stringify_other:
  "k \<noteq> ''_id'' \<Longrightarrow> map_of (stringify_id sf d) k = map_of d k"
  by (simp add: stringify_id_def py_setitem_def update_conv')

lemma listed_returns:
  "listed sf r = (Inr (OkItems items), st') \<Longrightarrow>
     \<exists>docs. r = (Inr docs, st') \<and> items = map (stringify_id sf) docs"
  by (cases r) (auto simp: listed_def split: sum.splits)

section \<open>Validation lemmas\<close>

lemma ap_Inr_iff: "ap f x = Inr y \<longleftrightarrow> (\<exists>g v. f = Inr g \<and> x = Inr v \<and> y = g v)"
  by (auto simp: ap_def split: sum.splits)

lemma ExpenseIn_validate_Inr:
  "ExpenseIn_validate b = Inr e \<longleftrightarrow>
     (\<exists>a c d m n cat acc t.
        validate_float ''amount'' None (b ''amount'') = Inr a \<and>
        validate_str ''currency'' (Some ''USD'') (b ''currency'') = Inr c \<and>
        validate_optional_str ''date'' (b ''date'') = Inr d \<and>
        validate_optional_str ''merchant'' (b ''merchant'') = Inr m \<and>
        validate_optional_str ''note'' (b ''note'') = Inr n \<and>
        validate_optional_str ''category'' (b ''category'') = Inr cat \<and>
        validate_optional_str ''account'' (b ''account'') = Inr acc \<and>
        validate_str ''type'' (Some ''debit'') (b ''type'') = Inr t \<and>
        e = \<lparr>e_amount = a, e_currency = c, e_date = d, e_merchant = m, e_note = n,
             e_category = cat, e_account = acc, e_type = t\<rparr>)"
  unfolding ExpenseIn_validate_def ap_Inr_iff by auto



lemma validated_date:
  "ExpenseIn_validate b = Inr e \<Longrightarrow>
     e_date e = (case b ''date'' of Some (JStr s) \<Rightarrow> Some s | _ \<Rightarrow> None)"
  unfolding ExpenseIn_validate_Inr
  by (auto split: option.splits json.splits elim: validate_optional_str.elims)

lemma post_api_expenses_valid:
  "ExpenseIn_validate b = Inr e \<Longrightarrow>
     post_api_expenses cd utcnow b st = add_expense cd utcnow e st"
  by (simp add: post_api_expenses_def)

section \<open>What the handlers pass to the store\<close>

lemma py_get_dump_date:
  "py_get (ExpenseIn_model_dump e) ''date'' = dump_optional_str (e_date e)"
  by (simp add: py_get_def ExpenseIn_model_dump_def)

lemma py_or_date:
  "py_or (dump_optional_str d) (JStr now) =
     JStr (case d of None \<Rightarrow> now | Some s \<Rightarrow> if s = [] then now else s)"
  by (cases d) (simp_all add: py_or_def)

lemma add_expense_recorded:
  "add_expense (recording_create r) utcnow e calls =
     created (r, calls @ [Create ''expense''
        (py_setitem (ExpenseIn_model_dump e) ''date''
           (JStr (case e_date e of None \<Rightarrow> utcnow calls
                  | Some s \<Rightarrow> if s = [] then utcnow calls else s)))])"
  by (simp add: add_expense_def Let_def py_get_dump_date py_or_date recording_create_def)

lemma list_expenses_recorded:
  "list_expenses (recording_find r) sf category limit calls =
     listed sf (r, calls @ [Find ''expense''
        (case category of
           None \<Rightarrow> [(''type'', JStr ''debit'')]
         | Some c \<Rightarrow> if c = [] then [(''type'', JStr ''debit'')]
                     else [(''type'', JStr ''debit''), (''category'', JStr c)]) limit])"
  by (simp add: list_expenses_def recording_find_def py_setitem_def split: option.splits)

lemma list_budgets_recorded:
  "list_budgets (recording_find r) sf month limit calls =
     listed sf (r, calls @ [Find ''budget''
        (case month of
           None \<Rightarrow> []
         | Some m \<Rightarrow> if m = [] then [] else [(''month'', JStr m)]) limit])"
  by (simp add: list_budgets_def recording_find_def py_setitem_def split: option.splits)

lemma list_goals_recorded:
  "list_goals (recording_find r) sf limit calls =
     listed sf (r, calls @ [Find ''goal'' [] limit])"
  by (simp add: list_goals_def recording_find_def)

lemma matches_py_get: "matches flt d \<Longrightarrow> (k, v) \<in> set flt \<Longrightarrow> py_get d k = v"
  by (auto simp: matches_def list_all_iff py_get_def)

lemma spec_get_documents_matches:
  "fst (spec_get_documents coll flt limit s) = Inr docs \<Longrightarrow> d \<in> set docs \<Longrightarrow> matches flt d"
  by (auto simp: spec_get_documents_def split: if_splits dest: in_set_takeD)

section \<open>Positive amounts (C1)\<close>

text \<open>
  C1 says that a Budget with \<open>amount \<le> 0\<close> and a Goal with \<open>target_amount \<le> 0\<close> are
  rejected with a validation error before the store is touched. The handlers validate
  against \<^verbatim>\<open>BudgetIn\<close> and \<^verbatim>\<open>GoalIn\<close>, whose amounts are plain floats: a budget of
  \<open>-5\<close> and a goal with target \<open>0\<close> pass validation, are handed to
  \<^verbatim>\<open>create_document\<close> and answered with \<^verbatim>\<open>ok\<close>.
\<close>

theorem nonpositive_amounts_reach_the_store:
  "post_api_budgets (recording_create (Inr ''b1''))
      [''category'' \<mapsto> JStr ''food'', ''amount'' \<mapsto> JNum (- 5)] []
     = (Inr (OkId ''b1''),
        [Create ''budget''
           [(''category'', JStr ''food''), (''amount'', JNum (- 5)), (''month'', JNull)]])
   \<and> post_api_goals (recording_create (Inr ''g1''))
      [''name'' \<mapsto> JStr ''car'', ''target_amount'' \<mapsto> JNum 0] []
     = (Inr (OkId ''g1''),
        [Create ''goal''
           [(''name'', JStr ''car''), (''target_amount'', JNum 0),
            (''current_amount'', JNum 0), (''deadline'', JNull)]])"
  by (simp add: post_api_budgets_def BudgetIn_validate_def add_budget_def BudgetIn_model_dump_def
        post_api_goals_def GoalIn_validate_def add_goal_def GoalIn_model_dump_def
        ap_def recording_create_def created_def)

section \<open>The type of an expense (C2)\<close>

text \<open>
  C2 says that an Expense whose \<open>type\<close> is a string other than "debit" or "credit" is
  rejected and never inserted. \<^verbatim>\<open>ExpenseIn.type\<close> is a plain \<^verbatim>\<open>str\<close> with default
  "debit": an expense of type "refund" passes validation and is inserted as it is.
\<close>

theorem unlisted_type_reaches_the_store:
  "post_api_expenses (recording_create (Inr ''e1'')) (fixed_clock ''2024-05-01T12:00:00'')
      [''amount'' \<mapsto> JNum 12.5, ''type'' \<mapsto> JStr ''refund''] []
     = (Inr (OkId ''e1''),
        [Create ''expense''
          [(''amount'', JNum 12.5), (''currency'', JStr ''USD''),
           (''date'', JStr ''2024-05-01T12:00:00''), (''merchant'', JNull), (''note'', JNull),
           (''category'', JNull), (''account'', JNull), (''type'', JStr ''refund'')]])"
  by (simp add: post_api_expenses_def ExpenseIn_validate_def ap_def add_expense_def
        ExpenseIn_model_dump_def py_get_def py_or_def py_setitem_def recording_create_def
        created_def fixed_clock_def)

section \<open>The date of an expense (C3, C10)\<close>

text \<open>
  C3, as amended: for every valid Expense create input in which the date field is absent,
  the document handed to the store carries the current UTC timestamp as its date; when a
  non-empty date is supplied, the supplied value is stored unchanged.
\<close>

theorem supplied_date_kept_absent_date_filled:
  assumes "ExpenseIn_validate b = Inr e"
  shows "\<exists>data. snd (post_api_expenses (recording_create r) utcnow b calls)
                  = calls @ [Create ''expense'' data] \<and>
           (b ''date'' = None \<longrightarrow> py_get data ''date'' = JStr (utcnow calls)) \<and>
           (\<forall>s. b ''date'' = Some (JStr s) \<and> s \<noteq> [] \<longrightarrow> py_get data ''date'' = JStr s)"
  using validated_date [OF assms]
  by (auto simp: post_api_expenses_valid [OF assms] add_expense_recorded snd_created
        py_get_setitem_same)

text \<open>
  The theorem at two inputs: a body without a date, stored with the clock's reading, and a
  body dated 2024-04-30, stored with that date.
\<close>

theorem supplied_date_kept_absent_date_filled_witness:
  "ExpenseIn_validate [''amount'' \<mapsto> JNum 12.5]
     = Inr \<lparr>e_amount = 12.5, e_currency = ''USD'', e_date = None, e_merchant = None,
            e_note = None, e_category = None, e_account = None, e_type = ''debit''\<rparr> \<and>
   snd (post_api_expenses (recording_create (Inr ''e1'')) (fixed_clock ''2024-05-01T12:00:00'')
          [''amount'' \<mapsto> JNum 12.5] [])
     = [Create ''expense''
          [(''amount'', JNum 12.5), (''currency'', JStr ''USD''),
           (''date'', JStr ''2024-05-01T12:00:00''), (''merchant'', JNull), (''note'', JNull),
           (''category'', JNull), (''account'', JNull), (''type'', JStr ''debit'')]] \<and>
   ExpenseIn_validate [''amount'' \<mapsto> JNum 12.5, ''date'' \<mapsto> JStr ''2024-04-30'']
     = Inr \<lparr>e_amount = 12.5, e_currency = ''USD'', e_date = Some ''2024-04-30'',
            e_merchant = None, e_note = None, e_category = None, e_account = None,
            e_type = ''debit''\<rparr> \<and>
   snd (post_api_expenses (recording_create (Inr ''e1'')) (fixed_clock ''2024-05-01T12:00:00'')
          [''amount'' \<mapsto> JNum 12.5, ''date'' \<mapsto> JStr ''2024-04-30''] [])
     = [Create ''expense''
          [(''amount'', JNum 12.5), (''currency'', JStr ''USD''),
           (''date'', JStr ''2024-04-30''), (''merchant'', JNull), (''note'', JNull),
           (''category'', JNull), (''account'', JNull), (''type'', JStr ''debit'')]]"
proof -
  have v1: "ExpenseIn_validate [''amount'' \<mapsto> JNum 12.5]
     = Inr \<lparr>e_amount = 12.5, e_currency = ''USD'', e_date = None, e_merchant = None,
            e_note = None, e_category = None, e_account = None, e_type = ''debit''\<rparr>"
    by (simp add: ExpenseIn_validate_def ap_def)
  have v2: "ExpenseIn_validate [''amount'' \<mapsto> JNum 12.5, ''date'' \<mapsto> JStr ''2024-04-30'']
     = Inr \<lparr>e_amount = 12.5, e_currency = ''USD'', e_date = Some ''2024-04-30'',
            e_merchant = None, e_note = None, e_category = None, e_account = None,
            e_type = ''debit''\<rparr>"
    by (simp add: ExpenseIn_validate_def ap_def)
  from supplied_date_kept_absent_date_filled
         [OF v1, of "Inr ''e1''" "fixed_clock ''2024-05-01T12:00:00''" "[]"]
       supplied_date_kept_absent_date_filled
         [OF v2, of "Inr ''e1''" "fixed_clock ''2024-05-01T12:00:00''" "[]"]
       v1 v2
  show ?thesis
    by (simp add: post_api_expenses_def add_expense_def ExpenseIn_model_dump_def py_get_def
          py_or_def py_setitem_def recording_create_def created_def fixed_clock_def)
qed

text \<open>
  C3 as it is written fails where the supplied date is the empty string: the stored date
  is the clock's reading, not the supplied value.
\<close>

theorem empty_date_counterexample:
  "snd (post_api_expenses (recording_create (Inr ''e1'')) (fixed_clock ''2024-05-01T12:00:00'')
          [''amount'' \<mapsto> JNum 12.5, ''date'' \<mapsto> JStr ''''] [])
     = [Create ''expense''
          [(''amount'', JNum 12.5), (''currency'', JStr ''USD''),
           (''date'', JStr ''2024-05-01T12:00:00''), (''merchant'', JNull), (''note'', JNull),
           (''category'', JNull), (''account'', JNull), (''type'', JStr ''debit'')]]
   \<and> JStr ''2024-05-01T12:00:00'' \<noteq> JStr ''''"
  by (simp add: post_api_expenses_def ExpenseIn_validate_def ap_def add_expense_def
        ExpenseIn_model_dump_def py_get_def py_or_def py_setitem_def recording_create_def
        created_def fixed_clock_def)

text \<open>
  C10: the create handler replaces every falsy date, the empty string as well as an absent
  or null one, with the current UTC timestamp.
\<close>

theorem falsy_date_replaced:
  assumes "ExpenseIn_validate b = Inr e"
    and "b ''date'' = None \<or> b ''date'' = Some JNull \<or> b ''date'' = Some (JStr '''')"
  shows "\<exists>data. snd (post_api_expenses (recording_create r) utcnow b calls)
                  = calls @ [Create ''expense'' data] \<and>
           py_get data ''date'' = JStr (utcnow calls)"
  using validated_date [OF assms(1)] assms(2)
  by (auto simp: post_api_expenses_valid [OF assms(1)] add_expense_recorded snd_created
        py_get_setitem_same)

text \<open>The theorem at a body whose date is the empty string.\<close>

theorem falsy_date_replaced_witness:
  "ExpenseIn_validate [''amount'' \<mapsto> JNum 12.5, ''date'' \<mapsto> JStr '''']
     = Inr \<lparr>e_amount = 12.5, e_currency = ''USD'', e_date = Some '''', e_merchant = None,
            e_note = None, e_category = None, e_account = None, e_type = ''debit''\<rparr> \<and>
   [''amount'' \<mapsto> JNum 12.5, ''date'' \<mapsto> JStr ''''] ''date'' = Some (JStr '''') \<and>
   snd (post_api_expenses (recording_create (Inr ''e1'')) (fixed_clock ''2024-05-01T12:00:00'')
          [''amount'' \<mapsto> JNum 12.5, ''date'' \<mapsto> JStr ''''] [])
     = [Create ''expense''
          [(''amount'', JNum 12.5), (''currency'', JStr ''USD''),
           (''date'', JStr ''2024-05-01T12:00:00''), (''merchant'', JNull), (''note'', JNull),
           (''category'', JNull), (''account'', JNull), (''type'', JStr ''debit'')]]"
proof -
  have v: "ExpenseIn_validate [''amount'' \<mapsto> JNum 12.5, ''date'' \<mapsto> JStr '''']
     = Inr \<lparr>e_amount = 12.5, e_currency = ''USD'', e_date = Some '''', e_merchant = None,
            e_note = None, e_category = None, e_account = None, e_type = ''debit''\<rparr>"
    by (simp add: ExpenseIn_validate_def ap_def)
  have d: "[''amount'' \<mapsto> JNum 12.5, ''date'' \<mapsto> JStr ''''] ''date'' = None \<or>
           [''amount'' \<mapsto> JNum 12.5, ''date'' \<mapsto> JStr ''''] ''date'' = Some JNull \<or>
           [''amount'' \<mapsto> JNum 12.5, ''date'' \<mapsto> JStr ''''] ''date'' = Some (JStr '''')"
    by simp
  from falsy_date_replaced
         [OF v d, of "Inr ''e1''" "fixed_clock ''2024-05-01T12:00:00''" "[]"]
       v
  show ?thesis
    by (simp add: post_api_expenses_def add_expense_def ExpenseIn_model_dump_def py_get_def
          py_or_def py_setitem_def recording_create_def created_def fixed_clock_def)
qed

section \<open>Limits of the list endpoints (C4)\<close>

text \<open>
  C4: the limit of each list endpoint is bounded inclusively and defaulted before the
  store is reached: expenses 1 to 500, budgets and goals 1 to 200, default 50 each. An
  absent limit reaches the store as 50, a limit within the bound reaches it unchanged, and
  a limit outside the bound ends the request with a client input error, whatever the
  store is, with the state of the world untouched.
\<close>

theorem limit_checked_before_the_store:
  "(\<exists>flt. snd (get_api_expenses (recording_find r) sf category None calls)
            = calls @ [Find ''expense'' flt 50]) \<and>
   (1 \<le> l \<and> l \<le> 500 \<longrightarrow>
      (\<exists>flt. snd (get_api_expenses (recording_find r) sf category (Some l) calls)
            = calls @ [Find ''expense'' flt l])) \<and>
   (l < 1 \<or> 500 < l \<longrightarrow>
      (\<exists>errs. get_api_expenses gd sf category (Some l) st
            = (Inl (RequestValidationError errs), st))) \<and>
   (\<exists>flt. snd (get_api_budgets (recording_find r) sf month None calls)
            = calls @ [Find ''budget'' flt 50]) \<and>
   (1 \<le> l \<and> l \<le> 200 \<longrightarrow>
      (\<exists>flt. snd (get_api_budgets (recording_find r) sf month (Some l) calls)
            = calls @ [Find ''budget'' flt l])) \<and>
   (l < 1 \<or> 200 < l \<longrightarrow>
      (\<exists>errs. get_api_budgets gd sf month (Some l) st
            = (Inl (RequestValidationError errs), st))) \<and>
   snd (get_api_goals (recording_find r) sf None calls) = calls @ [Find ''goal'' [] 50] \<and>
   (1 \<le> l \<and> l \<le> 200 \<longrightarrow>
      snd (get_api_goals (recording_find r) sf (Some l) calls) = calls @ [Find ''goal'' [] l]) \<and>
   (l < 1 \<or> 200 < l \<longrightarrow>
      (\<exists>errs. get_api_goals gd sf (Some l) st
            = (Inl (RequestValidationError errs), st)))"
  by (simp add: get_api_expenses_def get_api_budgets_def get_api_goals_def Query_int_def
        list_expenses_recorded list_budgets_recorded list_goals_recorded snd_listed)

text \<open>
  The theorem at the boundary: an expense list with limit 500 reaches the store with 500,
  limits 501 and 0 are rejected without a call; a goal list with limit 200 reaches the
  store, 201 does not.
\<close>

theorem limit_checked_before_the_store_witness:
  "snd (get_api_expenses (recording_find (Inr [])) plain_float None (Some 500) [])
     = [Find ''expense'' [(''type'', JStr ''debit'')] 500] \<and>
   get_api_expenses (recording_find (Inr [])) plain_float None (Some 501) []
     = (Inl (RequestValidationError [(''limit'', less_than_equal)]), []) \<and>
   get_api_expenses (recording_find (Inr [])) plain_float None (Some 0) []
     = (Inl (RequestValidationError [(''limit'', greater_than_equal)]), []) \<and>
   snd (get_api_goals (recording_find (Inr [])) plain_float (Some 200) [])
     = [Find ''goal'' [] 200] \<and>
   get_api_goals (recording_find (Inr [])) plain_float (Some 201) []
     = (Inl (RequestValidationError [(''limit'', less_than_equal)]), [])"
  using limit_checked_before_the_store
          [where l = 500 and r = "Inr []" and sf = plain_float and category = None
             and calls = "[]" and gd = "recording_find (Inr [])" and st = "[]"]
        limit_checked_before_the_store
          [where l = 501 and r = "Inr []" and sf = plain_float and category = None
             and calls = "[]" and gd = "recording_find (Inr [])" and st = "[]"]
        limit_checked_before_the_store
          [where l = 0 and r = "Inr []" and sf = plain_float and category = None
             and calls = "[]" and gd = "recording_find (Inr [])" and st = "[]"]
        limit_checked_before_the_store
          [where l = 200 and r = "Inr []" and sf = plain_float and category = None
             and calls = "[]" and gd = "recording_find (Inr [])" and st = "[]"]
        limit_checked_before_the_store
          [where l = 201 and r = "Inr []" and sf = plain_float and category = None
             and calls = "[]" and gd = "recording_find (Inr [])" and st = "[]"]
  by (simp add: get_api_expenses_def get_api_goals_def Query_int_def list_expenses_def
        list_goals_def recording_find_def listed_def)

section \<open>The filter of the expense list (C5, C9)\<close>

text \<open>
  C5, as amended: for every Expense list request the filter passed to the store contains
  the equality type = "debit", and contains an exact-match equality on category exactly
  when a non-empty category parameter is provided; so, against a store whose find returns
  the documents matching its filter, listing with category "food" returns only documents
  with category "food" and type "debit".
\<close>

theorem expense_list_filter:
  "snd (list_expenses (recording_find r) sf category limit calls)
     = calls @ [Find ''expense''
         (case category of
            None \<Rightarrow> [(''type'', JStr ''debit'')]
          | Some c \<Rightarrow> if c = [] then [(''type'', JStr ''debit'')]
                      else [(''type'', JStr ''debit''), (''category'', JStr c)]) limit] \<and>
   (list_expenses spec_get_documents sf category limit s = (Inr (OkItems items), s') \<and>
    d \<in> set items \<longrightarrow>
      py_get d ''type'' = JStr ''debit'' \<and>
      (\<forall>c. category = Some c \<and> c \<noteq> [] \<longrightarrow> py_get d ''category'' = JStr c))"
proof (intro conjI impI)
  show "snd (list_expenses (recording_find r) sf category limit calls)
     = calls @ [Find ''expense''
         (case category of
            None \<Rightarrow> [(''type'', JStr ''debit'')]
          | Some c \<Rightarrow> if c = [] then [(''type'', JStr ''debit'')]
                      else [(''type'', JStr ''debit''), (''category'', JStr c)]) limit]"
    by (simp add: list_expenses_recorded snd_listed)
next
  assume a: "list_expenses spec_get_documents sf category limit s = (Inr (OkItems items), s') \<and>
    d \<in> set items"
  define flt where "flt =
     (case category of
        None \<Rightarrow> [(''type'', JStr ''debit'')]
      | Some c \<Rightarrow> if c = [] then [(''type'', JStr ''debit'')]
                  else [(''type'', JStr ''debit''), (''category'', JStr c)])"
  have le: "list_expenses spec_get_documents sf category limit s
              = listed sf (spec_get_documents ''expense'' flt limit s)"
    by (simp add: list_expenses_def flt_def py_setitem_def split: option.splits)
  from a le obtain docs where docs: "fst (spec_get_documents ''expense'' flt limit s) = Inr docs"
    and items: "items = map (stringify_id sf) docs"
    using listed_items by metis
  from a items obtain d0 where d0: "d0 \<in> set docs" and d: "d = stringify_id sf d0"
    by auto
  have m: "matches flt d0"
    using spec_get_documents_matches [OF docs d0] .
  have t: "(''type'', JStr ''debit'') \<in> set flt"
    by (simp add: flt_def split: option.splits)
  show "py_get d ''type'' = JStr ''debit''"
    using matches_py_get [OF m t] by (simp add: d py_get_stringify_other)
  show "\<forall>c. category = Some c \<and> c \<noteq> [] \<longrightarrow> py_get d ''category'' = JStr c"
  proof (intro allI impI)
    fix c assume c: "category = Some c \<and> c \<noteq> []"
    then have "(''category'', JStr c) \<in> set flt"
      by (simp add: flt_def)
    from matches_py_get [OF m this] show "py_get d ''category'' = JStr c"
      by (simp add: d py_get_stringify_other)
  qed
qed

text \<open>
  The theorem on a store that holds a food debit, a travel debit and a food credit:
  listing with category "food" returns the first alone, its identifier as text.
\<close>

theorem expense_list_filter_witness:
  "list_expenses spec_get_documents plain_float (Some ''food'') 50
      \<lparr>reachable = True,
       documents =
         [(''expense'', [(''_id'', JOid ''a1''), (''category'', JStr ''food''), (''type'', JStr ''debit'')]),
          (''expense'', [(''_id'', JOid ''a2''), (''category'', JStr ''travel''), (''type'', JStr ''debit'')]),
          (''expense'', [(''_id'', JOid ''a3''), (''category'', JStr ''food''), (''type'', JStr ''credit'')])]\<rparr>
     = (Inr (OkItems [[(''_id'', JStr ''a1''), (''category'', JStr ''food''), (''type'', JStr ''debit'')]]),
        \<lparr>reachable = True,
         documents =
           [(''expense'', [(''_id'', JOid ''a1''), (''category'', JStr ''food''), (''type'', JStr ''debit'')]),
            (''expense'', [(''_id'', JOid ''a2''), (''category'', JStr ''travel''), (''type'', JStr ''debit'')]),
            (''expense'', [(''_id'', JOid ''a3''), (''category'', JStr ''food''), (''type'', JStr ''credit'')])]\<rparr>) \<and>
   py_get [(''_id'', JStr ''a1''), (''category'', JStr ''food''), (''type'', JStr ''debit'')] ''type''
     = JStr ''debit'' \<and>
   py_get [(''_id'', JStr ''a1''), (''category'', JStr ''food''), (''type'', JStr ''debit'')] ''category''
     = JStr ''food''"
proof -
  have run: "list_expenses spec_get_documents plain_float (Some ''food'') 50
      \<lparr>reachable = True,
       documents =
         [(''expense'', [(''_id'', JOid ''a1''), (''category'', JStr ''food''), (''type'', JStr ''debit'')]),
          (''expense'', [(''_id'', JOid ''a2''), (''category'', JStr ''travel''), (''type'', JStr ''debit'')]),
          (''expense'', [(''_id'', JOid ''a3''), (''category'', JStr ''food''), (''type'', JStr ''credit'')])]\<rparr>
     = (Inr (OkItems [[(''_id'', JStr ''a1''), (''category'', JStr ''food''), (''type'', JStr ''debit'')]]),
        \<lparr>reachable = True,
         documents =
           [(''expense'', [(''_id'', JOid ''a1''), (''category'', JStr ''food''), (''type'', JStr ''debit'')]),
            (''expense'', [(''_id'', JOid ''a2''), (''category'', JStr ''travel''), (''type'', JStr ''debit'')]),
            (''expense'', [(''_id'', JOid ''a3''), (''category'', JStr ''food''), (''type'', JStr ''credit'')])]\<rparr>)"
    by (simp add: list_expenses_def spec_get_documents_def matches_def listed_def
          stringify_id_def py_setitem_def py_get_def)
  from expense_list_filter
         [where category = "Some ''food''" and sf = plain_float and limit = 50
            and d = "[(''_id'', JStr ''a1''), (''category'', JStr ''food''), (''type'', JStr ''debit'')]"
            and items = "[[(''_id'', JStr ''a1''), (''category'', JStr ''food''), (''type'', JStr ''debit'')]]",
          THEN conjunct2, rule_format, OF conjI, OF run]
  have "py_get [(''_id'', JStr ''a1''), (''category'', JStr ''food''), (''type'', JStr ''debit'')] ''type''
          = JStr ''debit'' \<and>
        (\<forall>c. Some ''food'' = Some c \<and> c \<noteq> [] \<longrightarrow>
           py_get [(''_id'', JStr ''a1''), (''category'', JStr ''food''), (''type'', JStr ''debit'')]
             ''category'' = JStr c)"
    by simp
  with run show ?thesis
    by simp
qed

text \<open>
  C5 as it is written fails where the category parameter is provided and empty: the
  filter passed to the store holds the type equality alone.
\<close>

theorem empty_category_counterexample:
  "snd (list_expenses (recording_find (Inr [])) plain_float (Some '''') 50 [])
     = [Find ''expense'' [(''type'', JStr ''debit'')] 50] \<and>
   map_of [(''type'', JStr ''debit'')] ''category'' = None"
  by (simp add: list_expenses_def recording_find_def listed_def)

text \<open>
  C9: a narrowing parameter that is present and empty is treated as absent. Listing
  expenses with category "" runs as listing without a category and passes the filter
  type = "debit" alone; listing budgets with month "" runs as listing without a month and
  passes the empty filter.
\<close>

theorem empty_narrowing_parameter_is_absent:
  "list_expenses gd sf (Some '''') limit st = list_expenses gd sf None limit st \<and>
   list_budgets gd sf (Some '''') limit st = list_budgets gd sf None limit st \<and>
   snd (list_expenses (recording_find r) sf (Some '''') limit calls)
     = calls @ [Find ''expense'' [(''type'', JStr ''debit'')] limit] \<and>
   snd (list_budgets (recording_find r) sf (Some '''') limit calls)
     = calls @ [Find ''budget'' [] limit]"
  by (simp add: list_expenses_def list_budgets_def recording_find_def snd_listed)

section \<open>Defaults of absent optional fields (C6)\<close>



section \<open>Identifiers in list responses (C7)\<close>

text \<open>
  C7: every item of every successful list response, of expenses, budgets or goals,
  carries its store identifier under the key \<open>_id\<close> rendered as a string, never as the
  store's native identifier. The items are the documents the store returned, in the same
  order and number; the \<open>i\<close>-th item holds under \<open>_id\<close> the text \<^verbatim>\<open>str()\<close> gives for
  what the \<open>i\<close>-th document holds there, so a native identifier is replaced by its own
  text, and every other key of the document is left as it was.
\<close>

theorem list_items_carry_string_id:
  assumes "h = list_expenses gd sf category limit \<or> h = list_budgets gd sf month limit
             \<or> h = list_goals gd sf limit"
    and "h st = (Inr (OkItems items), st')"
  shows "\<exists>coll flt docs.
           gd coll flt limit st = (Inr docs, st') \<and>
           length items = length docs \<and>
           (\<forall>i<length docs.
              map_of (items ! i) ''_id''
                = Some (JStr (py_str sf (py_get (docs ! i) ''_id''))) \<and>
              (\<forall>oid. map_of (docs ! i) ''_id'' = Some (JOid oid) \<longrightarrow>
                 map_of (items ! i) ''_id'' = Some (JStr oid)) \<and>
              (\<forall>k. k \<noteq> ''_id'' \<longrightarrow> map_of (items ! i) k = map_of (docs ! i) k)) \<and>
           (\<forall>d\<in>set items.
              (\<exists>s. map_of d ''_id'' = Some (JStr s)) \<and>
              (\<forall>oid. map_of d ''_id'' \<noteq> Some (JOid oid)))"
proof -
  from assms(1) have "\<exists>coll flt. h st = listed sf (gd coll flt limit st)"
    unfolding list_expenses_def list_budgets_def list_goals_def Let_def by blast
  then obtain coll flt where run: "h st = listed sf (gd coll flt limit st)"
    by blast
  with assms(2) obtain docs where docs: "gd coll flt limit st = (Inr docs, st')"
    and items: "items = map (stringify_id sf) docs"
    using listed_returns by metis
  have "\<forall>i<length docs.
          map_of (items ! i) ''_id''
            = Some (JStr (py_str sf (py_get (docs ! i) ''_id''))) \<and>
          (\<forall>oid. map_of (docs ! i) ''_id'' = Some (JOid oid) \<longrightarrow>
             map_of (items ! i) ''_id'' = Some (JStr oid)) \<and>
          (\<forall>k. k \<noteq> ''_id'' \<longrightarrow> map_of (items ! i) k = map_of (docs ! i) k)"
    by (simp add: items map_of_stringify_id map_of_stringify_other py_get_def)
  moreover have "\<forall>d\<in>set items.
          (\<exists>s. map_of d ''_id'' = Some (JStr s)) \<and>
          (\<forall>oid. map_of d ''_id'' \<noteq> Some (JOid oid))"
    by (auto simp: items map_of_stringify_id)
  moreover have "length items = length docs"
    by (simp add: items)
  ultimately show ?thesis
    using docs by blast
qed

text \<open>
  The theorem on a goal list whose store returns one document under a native identifier:
  the item carries that identifier's text, and its name as the store gave it.
\<close>

theorem list_items_carry_string_id_witness:
  "list_goals
      (recording_find (Inr [[(''_id'', JOid ''65f0c2a4e1b2c3d4e5f60718''), (''name'', JStr ''car'')]]))
      plain_float 50 []
     = (Inr (OkItems [[(''_id'', JStr ''65f0c2a4e1b2c3d4e5f60718''), (''name'', JStr ''car'')]]),
        [Find ''goal'' [] 50]) \<and>
   map_of ([[(''_id'', JStr ''65f0c2a4e1b2c3d4e5f60718''), (''name'', JStr ''car'')]] ! 0) ''_id''
     = Some (JStr ''65f0c2a4e1b2c3d4e5f60718'') \<and>
   map_of ([[(''_id'', JStr ''65f0c2a4e1b2c3d4e5f60718''), (''name'', JStr ''car'')]] ! 0) ''name''
     = Some (JStr ''car'')"
proof -
  have run: "list_goals
      (recording_find (Inr [[(''_id'', JOid ''65f0c2a4e1b2c3d4e5f60718''), (''name'', JStr ''car'')]]))
      plain_float 50 []
     = (Inr (OkItems [[(''_id'', JStr ''65f0c2a4e1b2c3d4e5f60718''), (''name'', JStr ''car'')]]),
        [Find ''goal'' [] 50])"
    by (simp add: list_goals_def recording_find_def listed_def stringify_id_def
          py_setitem_def py_get_def)
  from list_items_carry_string_id
          [where h = "list_goals
              (recording_find (Inr [[(''_id'', JOid ''65f0c2a4e1b2c3d4e5f60718''), (''name'', JStr ''car'')]]))
              plain_float 50"
             and gd = "recording_find (Inr [[(''_id'', JOid ''65f0c2a4e1b2c3d4e5f60718''), (''name'', JStr ''car'')]])"
             and sf = plain_float and limit = 50,
           OF _ run]
  obtain docs where
    d: "docs = [[(''_id'', JOid ''65f0c2a4e1b2c3d4e5f60718''), (''name'', JStr ''car'')]]"
    and i: "\<forall>i<length docs.
         (\<forall>oid. map_of (docs ! i) ''_id'' = Some (JOid oid) \<longrightarrow>
            map_of ([[(''_id'', JStr ''65f0c2a4e1b2c3d4e5f60718''), (''name'', JStr ''car'')]] ! i) ''_id''
              = Some (JStr oid)) \<and>
         (\<forall>k. k \<noteq> ''_id'' \<longrightarrow>
            map_of ([[(''_id'', JStr ''65f0c2a4e1b2c3d4e5f60718''), (''name'', JStr ''car'')]] ! i) k
              = map_of (docs ! i) k)"
    by (auto simp: recording_find_def)
  from i d have
    "map_of ([[(''_id'', JStr ''65f0c2a4e1b2c3d4e5f60718''), (''name'', JStr ''car'')]] ! 0) ''_id''
       = Some (JStr ''65f0c2a4e1b2c3d4e5f60718'')"
    "map_of ([[(''_id'', JStr ''65f0c2a4e1b2c3d4e5f60718''), (''name'', JStr ''car'')]] ! 0) ''name''
       = Some (JStr ''car'')"
    by simp_all
  with run show ?thesis
    by (intro conjI)
qed

section \<open>Storage failures (C8)\<close>

text \<open>
  C8, as amended: for every storage failure raised inside a create or list handler, the
  operation answers with a server-side error, status 500, that carries the whole text of
  the error, and the store has been called once, the failing call: nothing is retried.
\<close>

theorem storage_failure_surfaces_untruncated:
  "(\<exists>data. add_expense (recording_create (Inl e)) utcnow x calls
            = (Inl (HTTPException 500 (str_exn e)), calls @ [Create ''expense'' data])) \<and>
   add_budget (recording_create (Inl e)) y calls
     = (Inl (HTTPException 500 (str_exn e)), calls @ [Create ''budget'' (BudgetIn_model_dump y)]) \<and>
   add_goal (recording_create (Inl e)) z calls
     = (Inl (HTTPException 500 (str_exn e)), calls @ [Create ''goal'' (GoalIn_model_dump z)]) \<and>
   (\<exists>flt. list_expenses (recording_find (Inl e)) sf category limit calls
            = (Inl (HTTPException 500 (str_exn e)), calls @ [Find ''expense'' flt limit])) \<and>
   (\<exists>flt. list_budgets (recording_find (Inl e)) sf month limit calls
            = (Inl (HTTPException 500 (str_exn e)), calls @ [Find ''budget'' flt limit])) \<and>
   list_goals (recording_find (Inl e)) sf limit calls
     = (Inl (HTTPException 500 (str_exn e)), calls @ [Find ''goal'' [] limit])"
  by (simp add: add_expense_recorded add_budget_def add_goal_def recording_create_def
        list_expenses_recorded list_budgets_recorded list_goals_recorded created_def listed_def)

text \<open>
  C8 as it is written fails on the truncation: a failure whose text is 72 characters long
  is answered with all 72, where the health check of the same module cuts an error's text
  to its first 50.
\<close>

theorem long_failure_text_counterexample:
  "add_budget
      (recording_create
         (Inl (Exception ''localhost:27017: connection refused while selecting a server for writing'')))
      \<lparr>b_category = ''food'', b_amount = 300, b_month = None\<rparr> []
     = (Inl (HTTPException 500
               ''localhost:27017: connection refused while selecting a server for writing''),
        [Create ''budget''
           [(''category'', JStr ''food''), (''amount'', JNum 300), (''month'', JNull)]]) \<and>
   length ''localhost:27017: connection refused while selecting a server for writing'' = 72 \<and>
   take 50 ''localhost:27017: connection refused while selecting a server for writing''
     \<noteq> ''localhost:27017: connection refused while selecting a server for writing''"
  by (simp add: add_budget_def BudgetIn_model_dump_def recording_create_def created_def)

end
